theory Spec2Isabelle
  imports Main "HOL-Library.Sublist"
begin

section \<open>Data model\<close>

text \<open>
  Go's \<open>error\<close> interface values that occur in \<open>task.go\<close> and \<open>task_test.go\<close>:
  \<open>errors.New(msg)\<close> and the two sentinel errors of package \<open>context\<close>,
  \<open>context.Canceled\<close> and \<open>context.DeadlineExceeded\<close>. None of them wraps another
  error. A nil error is \<open>None\<close> of type \<open>error option\<close>.
\<close>

datatype ctx_error = Canceled | DeadlineExceeded

datatype error = New string | Ctx ctx_error

text \<open>\<open>time.Duration\<close> counts nanoseconds; no arithmetic on it can overflow here.\<close>

type_synonym duration = int

definition Millisecond :: duration where
  "Millisecond = 1000000"

text \<open>
  A \<open>context.Context\<close> as seen at the moment of a call: the time left until its
  deadline (\<open>None\<close> when it has none) and the value of \<open>ctx.Err()\<close> at that moment,
  which is nil as long as \<open>ctx.Done()\<close> is open and keeps its first cause afterwards.
  A cancellation by the owner while the call is running is outside this model.
\<close>

record Context =
  remaining :: "duration option"
  Err :: "error option"

text \<open>
  \<open>context.WithTimeout(context.Background(), ttl)\<close>, as the test harness builds it.
  A timeout that is not positive gives a context that is expired from the start.
\<close>

definition WithTimeout :: "duration \<Rightarrow> Context" where
  "WithTimeout ttl =
     \<lparr>remaining = Some ttl,
      Err = (if ttl \<le> 0 then Some (Ctx DeadlineExceeded) else None)\<rparr>"

text \<open>
  Whether \<open>ctx.Done()\<close> is closed before a timer of length \<open>d\<close> fires. When both happen
  at the same instant Go's \<open>select\<close> may take either branch; the model takes the timer.
\<close>

definition done_before :: "Context \<Rightarrow> duration \<Rightarrow> bool" where
  "done_before ctx d =
     (case Err ctx of
        Some e \<Rightarrow> True
      | None \<Rightarrow> (case remaining ctx of None \<Rightarrow> False | Some r \<Rightarrow> r < d))"

text \<open>
  \<open>ctx.Err()\<close> read by a call after it has seen \<open>ctx.Done()\<close> closed: the cause the
  context already had when the call began, else the deadline that passed meanwhile.
\<close>

definition Err_after_Done :: "Context \<Rightarrow> error option" where
  "Err_after_Done ctx =
     (case Err ctx of Some e \<Rightarrow> Some e | None \<Rightarrow> Some (Ctx DeadlineExceeded))"

text \<open>
  \<open>errors.Is(err, target)\<close> for a target that is one of the two sentinels of package
  \<open>context\<close>. No error here wraps another, so the chain of \<open>err\<close> is \<open>err\<close> itself:
  the check holds exactly when \<open>err\<close> is that sentinel. A nil \<open>err\<close> and an
  \<open>errors.New\<close> value match neither.
\<close>

definition errors_Is :: "error option \<Rightarrow> ctx_error \<Rightarrow> bool" where
  "errors_Is e target = (e = Some (Ctx target))"

text \<open>
  The address list with every repeated address dropped and each address kept at its
  first occurrence, as step 1 of the coordinator's specified behaviour describes it;
  \<open>seen\<close> holds the addresses met so far. (\<^const>\<open>remdups\<close> keeps the last occurrence.)
\<close>

fun dedup_from :: "string list \<Rightarrow> string list \<Rightarrow> string list" where
  "dedup_from seen [] = []"
| "dedup_from seen (a # as) =
     (if a \<in> set seen then dedup_from seen as else a # dedup_from (a # seen) as)"

definition dedup_first :: "string list \<Rightarrow> string list" where
  "dedup_first addresses = dedup_from [] addresses"

text \<open>
  The \<open>Getter\<close> interface of \<open>task.go\<close>: one method
  \<open>Get(ctx, address, key) (string, error)\<close>. An interface value may be nil, so the
  coordinator receives a \<open>Getter option\<close>.
\<close>

type_synonym Getter = "Context \<Rightarrow> string \<Rightarrow> string \<Rightarrow> string \<times> error option"

text \<open>A Go call either returns its results or panics.\<close>

datatype 'a outcome = Returned 'a | Panicked string

text \<open>One invocation of the getter's method, as (address, key).\<close>

type_synonym call = "string \<times> string"

section \<open>The coordinator (task.go)\<close>

text \<open>
  \<open>func Get(ctx, getter, addresses, key) (string, error) { return "", nil }\<close>.
  The log of getter invocations is threaded through the call: the body invokes nothing,
  so the log comes back as it went in.
\<close>

definition Get ::
  "Context \<Rightarrow> Getter option \<Rightarrow> string list \<Rightarrow> string \<Rightarrow> call list
     \<Rightarrow> (string \<times> error option) outcome \<times> call list" where
  "Get ctx getter addresses key calls = (Returned ('''', None), calls)"

section \<open>The test double (task_test.go)\<close>

record Response =
  Value :: string
  Error :: "error option"
  Delay :: duration

record MockGetter =
  Responses :: "string \<rightharpoonup> (string \<rightharpoonup> Response)"

definition NewMockGetter :: "(string \<rightharpoonup> (string \<rightharpoonup> Response)) \<Rightarrow> MockGetter" where
  "NewMockGetter responses = \<lparr>Responses = responses\<rparr>"

text \<open>
  \<open>(*MockGetter).Get\<close>: an unknown address or key is "key not found"; a positive delay
  races a timer against \<open>ctx.Done()\<close>; then the configured error or value is returned.
\<close>

definition MockGetter_Get :: "MockGetter \<Rightarrow> Getter" where
  "MockGetter_Get m ctx address key =
     (case Responses m address of
        None \<Rightarrow> ('''', Some (New ''key not found''))
      | Some responses \<Rightarrow>
          (case responses key of
             None \<Rightarrow> ('''', Some (New ''key not found''))
           | Some resp \<Rightarrow>
               if 0 < Delay resp \<and> done_before ctx (Delay resp) then ('''', Err_after_Done ctx)
               else if Error resp \<noteq> None then ('''', Error resp)
               else (Value resp, None)))"

text \<open>A \<open>Response\<close> literal with the fields it does not name left at their zero values.\<close>

definition resp_value :: "string \<Rightarrow> Response" where
  "resp_value v = \<lparr>Value = v, Error = None, Delay = 0\<rparr>"

definition resp_error :: "string \<Rightarrow> Response" where
  "resp_error msg = \<lparr>Value = '''', Error = Some (New msg), Delay = 0\<rparr>"

definition resp_delayed :: "string \<Rightarrow> duration \<Rightarrow> Response" where
  "resp_delayed v d = \<lparr>Value = v, Error = None, Delay = d\<rparr>"

text \<open>The response tables of the cases of \<open>TestGet\<close> that the theorems below run.\<close>

definition mock_fail_then_ok :: MockGetter where
  "mock_fail_then_ok = NewMockGetter
     [''addr1'' \<mapsto> [''key1'' \<mapsto> resp_error ''connection error''],
      ''addr2'' \<mapsto> [''key1'' \<mapsto> resp_value ''value2'']]"

definition mock_all_fail :: MockGetter where
  "mock_all_fail = NewMockGetter
     [''addr1'' \<mapsto> [''key1'' \<mapsto> resp_error ''error 1''],
      ''addr2'' \<mapsto> [''key1'' \<mapsto> resp_error ''error 2'']]"

definition mock_slow :: MockGetter where
  "mock_slow = NewMockGetter
     [''addr1'' \<mapsto> [''key1'' \<mapsto> resp_delayed ''value1'' (200 * Millisecond)]]"

definition mock_fast_slow :: MockGetter where
  "mock_fast_slow = NewMockGetter
     [''addr1'' \<mapsto> [''key1'' \<mapsto> resp_delayed ''value1'' (200 * Millisecond)],
      ''addr2'' \<mapsto> [''key1'' \<mapsto> resp_delayed ''value2'' (50 * Millisecond)]]"

definition mock_empty :: MockGetter where
  "mock_empty = NewMockGetter Map.empty"


section \<open>What the coordinator returns\<close>

lemmas mock_defs =
  MockGetter_Get_def NewMockGetter_def WithTimeout_def done_before_def Err_after_Done_def
  resp_value_def resp_error_def resp_delayed_def Millisecond_def

text \<open>
  C9. For every context, getter, address list and key, \<open>Get\<close> returns exactly the pair
  of the empty string and a nil error: never a non-empty value, never a non-nil error.
\<close>

theorem Get_returns_empty_nil:
  "fst (Get ctx getter addresses key calls) = Returned ('''', None)"
  by (simp add: Get_def)

text \<open>
  C10. \<open>Get\<close> never invokes the getter's method (the log of invocations is unchanged),
  and its result is the same for any two choices of context, getter, addresses and key.
\<close>

theorem Get_never_calls_getter:
  "snd (Get ctx getter addresses key calls) = calls \<and>
   fst (Get ctx getter addresses key calls) = fst (Get ctx' getter' addresses' key' calls')"
  by (simp add: Get_def)

text \<open>
  C5. If the address list is empty (or deduplicates to empty), \<open>Get\<close> returns the empty
  string and a nil error, at once: without invoking the getter.
\<close>

theorem Get_empty_addresses:
  "remdups addresses = [] \<Longrightarrow>
   Get ctx getter addresses key calls = (Returned ('''', None), calls)"
  by (simp add: Get_def)

theorem Get_empty_addresses_witness:
  "remdups ([] :: string list) = [] \<and>
   Get (WithTimeout (50 * Millisecond)) (Some (MockGetter_Get mock_empty)) [] ''key1'' []
     = (Returned ('''', None), [])"
  using Get_empty_addresses
    [of "[]" "WithTimeout (50 * Millisecond)" "Some (MockGetter_Get mock_empty)" "''key1''" "[]"]
  by simp

text \<open>
  The deduplicated list keeps each address once, at its first occurrence: it has the
  addresses of the input and no others, none twice, and on \<open>[a, b, a]\<close> it is \<open>[a, b]\<close>.
\<close>

lemma set_dedup_from: "set (dedup_from seen as) = set as - set seen"
  by (induction as arbitrary: seen) auto

lemma distinct_dedup_from: "distinct (dedup_from seen as)"
  by (induction as arbitrary: seen) (auto simp add: set_dedup_from)

lemma set_dedup_first: "set (dedup_first addresses) = set addresses"
  by (simp add: dedup_first_def set_dedup_from)

lemma distinct_dedup_first: "distinct (dedup_first addresses)"
  by (simp add: dedup_first_def distinct_dedup_from)

lemma dedup_first_keeps_first_occurrence:
  "dedup_first [''addr1'', ''addr2'', ''addr1''] = [''addr1'', ''addr2'']"
  by (simp add: dedup_first_def)


text \<open>
  Whatever the getter is (failing on every address, or a nil interface value), \<open>Get\<close>
  returns normally with one (value, error) pair and never panics.
\<close>

lemma Get_never_panics:
  "(\<exists>v e. fst (Get ctx getter addresses key calls) = Returned (v, e)) \<and>
   (\<forall>msg. fst (Get ctx getter addresses key calls) \<noteq> Panicked msg)"
  by (simp add: Get_def)

section \<open>The cases of TestGet on the coordinator\<close>

text \<open>
  C1. Case "first address fails, second succeeds": the attempt on \<open>addr1\<close> fails with
  "connection error", the attempt on \<open>addr2\<close> succeeds with \<open>value2\<close> within the 50 ms
  deadline, and the test expects \<open>("value2", nil)\<close>. \<open>Get\<close> returns \<open>("", nil)\<close>.
\<close>

theorem Get_drops_successful_attempt:
  "MockGetter_Get mock_fail_then_ok (WithTimeout (50 * Millisecond)) ''addr1'' ''key1''
     = ('''', Some (New ''connection error'')) \<and>
   MockGetter_Get mock_fail_then_ok (WithTimeout (50 * Millisecond)) ''addr2'' ''key1''
     = (''value2'', None) \<and>
   fst (Get (WithTimeout (50 * Millisecond)) (Some (MockGetter_Get mock_fail_then_ok))
          [''addr1'', ''addr2''] ''key1'' []) = Returned ('''', None) \<and>
   fst (Get (WithTimeout (50 * Millisecond)) (Some (MockGetter_Get mock_fail_then_ok))
          [''addr1'', ''addr2''] ''key1'' []) \<noteq> Returned (''value2'', None)"
  by (simp add: Get_def mock_fail_then_ok_def mock_defs)

text \<open>
  C2. Case "all addresses fail": both attempts fail within the 50 ms deadline and the
  test expects a non-nil error. \<open>Get\<close> returns a nil error.
\<close>

theorem Get_all_fail_returns_nil_error:
  "MockGetter_Get mock_all_fail (WithTimeout (50 * Millisecond)) ''addr1'' ''key1''
     = ('''', Some (New ''error 1'')) \<and>
   MockGetter_Get mock_all_fail (WithTimeout (50 * Millisecond)) ''addr2'' ''key1''
     = ('''', Some (New ''error 2'')) \<and>
   fst (Get (WithTimeout (50 * Millisecond)) (Some (MockGetter_Get mock_all_fail))
          [''addr1'', ''addr2''] ''key1'' []) = Returned ('''', None)"
  by (simp add: Get_def mock_all_fail_def mock_defs)

text \<open>
  C3. Case "context cancellation": the only attempt would succeed after 200 ms, the
  deadline is 50 ms, so the attempt is aborted with the context's error and the test
  expects an error matching a context error. \<open>Get\<close> returns a nil error, which matches
  neither \<open>context.Canceled\<close> nor \<open>context.DeadlineExceeded\<close>.
\<close>

theorem Get_deadline_returns_nil_error:
  "MockGetter_Get mock_slow (WithTimeout (50 * Millisecond)) ''addr1'' ''key1''
     = ('''', Some (Ctx DeadlineExceeded)) \<and>
   (case fst (Get (WithTimeout (50 * Millisecond)) (Some (MockGetter_Get mock_slow))
               [''addr1''] ''key1'' []) of
      Returned (v, e) \<Rightarrow>
        v = '''' \<and> e = None \<and>
        errors_Is e Canceled = False \<and>
        errors_Is e DeadlineExceeded = False
    | Panicked msg \<Rightarrow> False)"
  by (simp add: Get_def mock_slow_def mock_defs errors_Is_def)

text \<open>
  C4. Case "fast address beats slow one": \<open>addr2\<close> succeeds after 50 ms, \<open>addr1\<close> after
  200 ms, the deadline is 300 ms, and the test expects \<open>("value2", nil)\<close>, the faster
  attempt's value. \<open>Get\<close> returns \<open>("", nil)\<close>.
\<close>

theorem Get_drops_faster_attempt:
  "MockGetter_Get mock_fast_slow (WithTimeout (300 * Millisecond)) ''addr1'' ''key1''
     = (''value1'', None) \<and>
   MockGetter_Get mock_fast_slow (WithTimeout (300 * Millisecond)) ''addr2'' ''key1''
     = (''value2'', None) \<and>
   fst (Get (WithTimeout (300 * Millisecond)) (Some (MockGetter_Get mock_fast_slow))
          [''addr1'', ''addr2''] ''key1'' []) = Returned ('''', None) \<and>
   fst (Get (WithTimeout (300 * Millisecond)) (Some (MockGetter_Get mock_fast_slow))
          [''addr1'', ''addr2''] ''key1'' []) \<noteq> Returned (''value2'', None)"
  by (simp add: Get_def mock_fast_slow_def mock_defs)


text \<open>
  C8. One fetch attempt per unique address is to be started. On the two distinct
  addresses of the case "first address fails, second succeeds" \<open>Get\<close> starts none: the
  log of getter invocations stays empty.
\<close>

theorem Get_starts_no_attempt:
  "remdups [''addr1'', ''addr2''] = [''addr1'', ''addr2''] \<and>
   snd (Get (WithTimeout (50 * Millisecond)) (Some (MockGetter_Get mock_fail_then_ok))
          [''addr1'', ''addr2''] ''key1'' []) = []"
  by (simp add: Get_def)

end
